theory Spec2Isabelle
  imports Main
begin

section \<open>The OIDC login client of \<^verbatim>\<open>internal/oidc/client.go\<close>\<close>

text \<open>
  The two HTTP handlers \<^verbatim>\<open>Auth\<close> and \<^verbatim>\<open>Callback\<close> and the diagnostic
  \<^verbatim>\<open>DumpToken\<close> are embedded as functions from the request and from the answers of
  the outside world (random source, clock, IdP, completion hook, JSON encoder) to the
  ordered list of calls the handler makes on the response writer and on its
  collaborators. Calls to the logger are left out: they write nothing to the response.
\<close>

subsection \<open>Constants\<close>

text \<open>
  A \<^verbatim>\<open>time.Duration\<close> is a number of nanoseconds, a \<^verbatim>\<open>time.Time\<close> the
  nanoseconds since the zero time.
\<close>

type_synonym go_time = int

abbreviation time_Second :: int where
  "time_Second \<equiv> 1000000000"

abbreviation DefaultLoginTimeout :: int where
  "DefaultLoginTimeout \<equiv> 600"

abbreviation DefaultCookiePath :: string where
  "DefaultCookiePath \<equiv> ''/api/auth''"

abbreviation StatusFound :: nat where
  "StatusFound \<equiv> 302"

abbreviation StatusBadRequest :: nat where
  "StatusBadRequest \<equiv> 400"

abbreviation StatusForbidden :: nat where
  "StatusForbidden \<equiv> 403"

abbreviation StatusInternalServerError :: nat where
  "StatusInternalServerError \<equiv> 500"

text \<open>
  A Go \<^verbatim>\<open>error\<close> value. The two package-level sentinels are compared by identity
  in \<^verbatim>\<open>Callback\<close>; every other error is known by its message only.
\<close>

datatype go_error = ErrMissingCSCUserName | ErrMissingOrganization | OtherError string

fun error_Error :: "go_error \<Rightarrow> string" where
  "error_Error ErrMissingCSCUserName = ''Missing CSCUserName field''"
| "error_Error ErrMissingOrganization = ''Missing Organization field''"
| "error_Error (OtherError msg) = msg"

subsection \<open>Data\<close>

text \<open>The fields of \<^verbatim>\<open>http.Cookie\<close> that \<^verbatim>\<open>Auth\<close> fills in; the others stay zero.\<close>

record cookie =
  Name :: string
  Value :: string
  Path :: string
  Expires :: go_time
  MaxAge :: int
  Secure :: bool
  HttpOnly :: bool

text \<open>
  What \<^verbatim>\<open>Token.Extra\<close> hands back as an \<^verbatim>\<open>interface{}\<close>: nothing, a string, or a
  value of another dynamic type (on which the assertion \<^verbatim>\<open>.(string)\<close> fails).
\<close>

datatype go_value = GoNil | GoString string | GoOther

record oauth2_token =
  AccessToken :: string
  TokenType :: string
  RefreshToken :: string
  Expiry :: go_time
  raw :: "string \<Rightarrow> go_value"

definition token_Extra :: "oauth2_token \<Rightarrow> string \<Rightarrow> go_value" where
  "token_Extra t key = raw t key"

text \<open>Of \<^verbatim>\<open>gooidc.IDToken\<close>: the subject and the raw claim bytes (\<open>None\<close> is a nil slice).\<close>

record id_token =
  Subject :: string
  claims :: "string option"

text \<open>
  The request as the handlers read it: the cookies of the \<^verbatim>\<open>Cookie\<close> header in
  order (name, value), the raw query string and its parsed form \<^verbatim>\<open>r.URL.Query()\<close>,
  a map from a key to the list of its values.
\<close>

record request =
  Cookies :: "(string \<times> string) list"
  RawQuery :: string
  Query :: "string \<Rightarrow> string list"

text \<open>\<^verbatim>\<open>r.Cookie(name)\<close>: the value of the first cookie of that name, \<open>None\<close> for \<^verbatim>\<open>ErrNoCookie\<close>.\<close>

definition request_Cookie :: "request \<Rightarrow> string \<Rightarrow> string option" where
  "request_Cookie r name = map_of (Cookies r) name"

text \<open>\<^verbatim>\<open>url.Values.Get\<close>: the first value of the key, the empty string when there is none.\<close>

definition values_Get :: "(string \<Rightarrow> string list) \<Rightarrow> string \<Rightarrow> string" where
  "values_Get v key = (case v key of [] \<Rightarrow> [] | x # _ \<Rightarrow> x)"

text \<open>
  The client. \<^verbatim>\<open>RedirectURL\<close> is \<^verbatim>\<open>oauthConfig.RedirectURL\<close>; \<^verbatim>\<open>OnLogin\<close> is the
  completion hook, \<open>None\<close> when the field is nil, and answers with its error
  (\<open>None\<close> for a nil error).
\<close>

record oidc_client =
  clientName :: string
  clientID :: string
  frontendUrl :: string
  allowDevLogin :: bool
  RedirectURL :: string
  OnLogin :: "(request \<Rightarrow> oauth2_token option \<Rightarrow> id_token \<Rightarrow> go_error option) option"

text \<open>
  The outside world during one request: the clock, the outcome of
  \<^verbatim>\<open>randomkey.Random16\<close> and the key's \<^verbatim>\<open>Base64\<close> rendering, the IdP's
  authorization URL for a state and a nonce, the token endpoint (\<^verbatim>\<open>Exchange\<close>) and the
  verifier (\<^verbatim>\<open>Verify\<close>).
\<close>

record env =
  Now :: go_time
  Random16 :: "go_error + string"
  Base64 :: "string \<Rightarrow> string"
  AuthCodeURL :: "string \<Rightarrow> string \<Rightarrow> string"
  Exchange :: "string \<Rightarrow> go_error + oauth2_token"
  Verify :: "string \<Rightarrow> go_error + id_token"

text \<open>
  The calls a handler makes, in the order it makes them: on the response writer
  (\<^verbatim>\<open>http.SetCookie\<close>, \<^verbatim>\<open>http.Error\<close>, \<^verbatim>\<open>http.Redirect\<close>, \<^verbatim>\<open>w.Header().Set\<close>,
  \<^verbatim>\<open>w.Write\<close>), on the IdP and on the completion hook. What the hook itself writes to
  the response is its own business and is not recorded.
\<close>

datatype event =
    HttpSetCookie cookie
  | HttpError string nat
  | HttpRedirect string nat
  | CallExchange string
  | CallVerify string
  | CallOnLogin "oauth2_token option" id_token
  | HeaderSet string string
  | HttpWrite string

subsection \<open>\<^verbatim>\<open>Auth\<close>\<close>

definition Auth :: "env \<Rightarrow> oidc_client \<Rightarrow> request \<Rightarrow> event list" where
  "Auth e client r =
     (let nonce = RawQuery r in
      case Random16 e of
        Inl err \<Rightarrow> [HttpError ''can't create state parameter'' StatusInternalServerError]
      | Inr key \<Rightarrow>
          (let state = Base64 e key;
               setCookie = HttpSetCookie
                 \<lparr>Name = ''state'',
                  Value = state,
                  Path = DefaultCookiePath,
                  Expires = Now e + DefaultLoginTimeout * time_Second,
                  MaxAge = DefaultLoginTimeout,
                  Secure = True,
                  HttpOnly = True\<rparr>;
               rawIDToken = values_Get (Query r) ''token''
           in if rawIDToken \<noteq> [] then
                if \<not> allowDevLogin client then
                  [setCookie, HttpError ''access denied'' StatusForbidden]
                else
                  [setCookie,
                   HttpRedirect
                     (RedirectURL client @ ''?token='' @ rawIDToken @ ''&state='' @ state)
                     StatusFound]
              else
                [setCookie, HttpRedirect (AuthCodeURL e state nonce) StatusFound]))"

subsection \<open>\<^verbatim>\<open>Callback\<close>\<close>

text \<open>
  The second half of \<^verbatim>\<open>Callback\<close>, where its two token paths meet again:
  verification of the raw ID token, the completion hook and the final redirect.
\<close>

definition Callback_login ::
  "env \<Rightarrow> oidc_client \<Rightarrow> request \<Rightarrow> oauth2_token option \<Rightarrow> string \<Rightarrow> event list" where
  "Callback_login e client r oauth2Token rawIDToken =
     CallVerify rawIDToken #
     (case Verify e rawIDToken of
        Inl err \<Rightarrow> [HttpError ''id token verification failed'' StatusInternalServerError]
      | Inr idToken \<Rightarrow>
          (case OnLogin client of
             None \<Rightarrow> [HttpRedirect (frontendUrl client) StatusFound]
           | Some hook \<Rightarrow>
               CallOnLogin oauth2Token idToken #
               (case hook r oauth2Token idToken of
                  Some err \<Rightarrow>
                    if err = ErrMissingCSCUserName then
                      [HttpRedirect (frontendUrl client @ ''?missingcsc=1'') StatusFound]
                    else if err = ErrMissingOrganization then
                      [HttpRedirect (frontendUrl client @ ''?missingorg=1'') StatusFound]
                    else
                      [HttpError ''Login failed'' StatusInternalServerError]
                | None \<Rightarrow> [HttpRedirect (frontendUrl client) StatusFound])))"

definition Callback :: "env \<Rightarrow> oidc_client \<Rightarrow> request \<Rightarrow> event list" where
  "Callback e client r =
     (case request_Cookie r ''state'' of
        None \<Rightarrow> [HttpError ''login session expired'' StatusBadRequest]
      | Some cookieValue \<Rightarrow>
          if values_Get (Query r) ''state'' \<noteq> cookieValue then
            [HttpError ''state did not match'' StatusBadRequest]
          else
            (let rawIDToken = values_Get (Query r) ''token'' in
             if rawIDToken \<noteq> [] then
               if \<not> allowDevLogin client then
                 [HttpError ''access denied'' StatusForbidden]
               else
                 Callback_login e client r None rawIDToken
             else
               CallExchange (values_Get (Query r) ''code'') #
               (case Exchange e (values_Get (Query r) ''code'') of
                  Inl err \<Rightarrow>
                    [HttpError ''failed to exchange code for token'' StatusInternalServerError]
                | Inr oauth2Token \<Rightarrow>
                    (case token_Extra oauth2Token ''id_token'' of
                       GoString rawIDToken' \<Rightarrow>
                         Callback_login e client r (Some oauth2Token) rawIDToken'
                     | _ \<Rightarrow>
                         [HttpError ''IdP did not sent an id token''
                            StatusInternalServerError]))))"

subsection \<open>\<^verbatim>\<open>DumpToken\<close>\<close>

text \<open>
  The anonymous struct \<^verbatim>\<open>out\<close> that is serialized: the token pointer and the pointer to
  the raw claims (\<open>None\<close> is a nil pointer).
\<close>

record dump_out =
  OAuth2Token :: "oauth2_token option"
  IDTokenClaims :: "string option"

text \<open>
  The two calls into \<^verbatim>\<open>encoding/json\<close>: \<^verbatim>\<open>Unmarshal\<close> of the claim bytes into the
  raw-message pointer, and \<^verbatim>\<open>MarshalIndent\<close> of \<^verbatim>\<open>out\<close> with the four-space indent.
  Both belong to the standard library and are taken as they answer.
\<close>

record json_env =
  Unmarshal :: "string \<Rightarrow> go_error + string option"
  MarshalIndent :: "dump_out \<Rightarrow> go_error + string"

text \<open>\<^verbatim>\<open>IDToken.Claims\<close>: fails on a token without claims, else unmarshals them.\<close>

definition idToken_Claims :: "json_env \<Rightarrow> id_token \<Rightarrow> go_error + string option" where
  "idToken_Claims j i =
     (case claims i of
        None \<Rightarrow> Inl (OtherError ''oidc: claims not set'')
      | Some c \<Rightarrow> Unmarshal j c)"

text \<open>How a call ends: it returns, or it panics on a nil pointer.\<close>

datatype exit = Returns | Panics

text \<open>
  \<^verbatim>\<open>DumpToken\<close> receives two pointers (\<open>None\<close> is nil) and writes through the first.
  The result is the token object as the call leaves it, the calls made on the response
  writer, and how the call ended.
\<close>

definition DumpToken ::
  "json_env \<Rightarrow> oidc_client \<Rightarrow> oauth2_token option \<Rightarrow> id_token option
     \<Rightarrow> oauth2_token option \<times> event list \<times> exit" where
  "DumpToken j client token idToken =
     (case token of
        None \<Rightarrow> (None, [], Panics)
      | Some t0 \<Rightarrow>
          (let t1 = (if AccessToken t0 \<noteq> [] then t0\<lparr>AccessToken := ''***''\<rparr> else t0);
               t2 = (if RefreshToken t1 \<noteq> [] then t1\<lparr>RefreshToken := ''***''\<rparr> else t1)
           in case idToken of
                None \<Rightarrow> (Some t2, [], Panics)
              | Some i \<Rightarrow>
                  (case idToken_Claims j i of
                     Inl err \<Rightarrow>
                       (Some t2,
                        [HttpError (error_Error err) StatusInternalServerError],
                        Returns)
                   | Inr c \<Rightarrow>
                       (case MarshalIndent j \<lparr>OAuth2Token = Some t2, IDTokenClaims = c\<rparr> of
                          Inl err \<Rightarrow>
                            (Some t2,
                             [HttpError ''Internal Server Error'' StatusInternalServerError],
                             Returns)
                        | Inr data \<Rightarrow>
                            (Some t2,
                             [HeaderSet ''Content-Type'' ''application/json'', HttpWrite data],
                             Returns)))))"

section \<open>Sample inputs\<close>

text \<open>A token bundle as the IdP returns it, carrying the raw ID token \<open>jwt\<close>.\<close>

definition sample_token :: oauth2_token where
  "sample_token =
     \<lparr>AccessToken = ''at-secret'',
      TokenType = ''Bearer'',
      RefreshToken = ''rt-secret'',
      Expiry = 0,
      raw = (\<lambda>key. if key = ''id_token'' then GoString ''jwt'' else GoNil)\<rparr>"

definition sample_id_token :: id_token where
  "sample_id_token = \<lparr>Subject = ''alice'', claims = Some ''{}''\<rparr>"

text \<open>
  A world at time 0 whose random source works, whose IdP accepts the code \<open>code\<close> and
  whose verifier accepts the raw token \<open>jwt\<close> only.
\<close>

definition sample_env :: env where
  "sample_env =
     \<lparr>Now = 0,
      Random16 = Inr ''0123456789abcdef'',
      Base64 = (\<lambda>key. ''MDEyMzQ1Njc4OWFiY2RlZg''),
      AuthCodeURL = (\<lambda>state nonce. ''https://idp/authorize?state='' @ state @ ''&nonce='' @ nonce),
      Exchange = (\<lambda>code. if code = ''code'' then Inr sample_token
                          else Inl (OtherError ''invalid_grant'')),
      Verify = (\<lambda>rawIDToken. if rawIDToken = ''jwt'' then Inr sample_id_token
                               else Inl (OtherError ''failed to verify signature''))\<rparr>"

text \<open>The same world with a failing random source, and the same world 601 seconds later.\<close>

definition norandom_env :: env where
  "norandom_env = sample_env\<lparr>Random16 := Inl (OtherError ''unexpected EOF'')\<rparr>"

definition late_env :: env where
  "late_env = sample_env\<lparr>Now := 601 * time_Second\<rparr>"

definition sample_client :: oidc_client where
  "sample_client =
     \<lparr>clientName = ''idp'',
      clientID = ''qvain'',
      frontendUrl = ''https://qvain/login'',
      allowDevLogin = False,
      RedirectURL = ''https://qvain/api/auth/cb'',
      OnLogin = None\<rparr>"

definition dev_client :: oidc_client where
  "dev_client = sample_client\<lparr>allowDevLogin := True\<rparr>"

text \<open>A client whose completion hook always answers with the given error.\<close>

definition hook_client :: "go_error option \<Rightarrow> oidc_client" where
  "hook_client res = sample_client\<lparr>OnLogin := Some (\<lambda>r t i. res)\<rparr>"

text \<open>Requests, named by the query string they carry.\<close>

definition query_of :: "(string \<times> string) list \<Rightarrow> string \<Rightarrow> string list" where
  "query_of kvs key = map snd (filter (\<lambda>kv. fst kv = key) kvs)"

definition begin_request :: request where
  "begin_request = \<lparr>Cookies = [], RawQuery = [], Query = query_of []\<rparr>"

definition begin_token_request :: request where
  "begin_token_request =
     \<lparr>Cookies = [], RawQuery = ''token=jwt'', Query = query_of [(''token'', ''jwt'')]\<rparr>"

definition code_request :: request where
  "code_request =
     \<lparr>Cookies = [(''state'', ''MDEyMzQ1Njc4OWFiY2RlZg'')],
      RawQuery = ''code=code&state=MDEyMzQ1Njc4OWFiY2RlZg'',
      Query = query_of [(''code'', ''code''), (''state'', ''MDEyMzQ1Njc4OWFiY2RlZg'')]\<rparr>"

definition mismatch_request :: request where
  "mismatch_request =
     \<lparr>Cookies = [(''state'', ''MDEyMzQ1Njc4OWFiY2RlZg'')],
      RawQuery = ''code=code&state=forged'',
      Query = query_of [(''code'', ''code''), (''state'', ''forged'')]\<rparr>"

definition nocookie_request :: request where
  "nocookie_request =
     \<lparr>Cookies = [],
      RawQuery = ''token=forged&state=s'',
      Query = query_of [(''token'', ''forged''), (''state'', ''s'')]\<rparr>"

definition token_request :: request where
  "token_request =
     \<lparr>Cookies = [(''state'', ''s'')],
      RawQuery = ''token=forged&state=s'',
      Query = query_of [(''token'', ''forged''), (''state'', ''s'')]\<rparr>"

definition emptystate_request :: request where
  "emptystate_request =
     \<lparr>Cookies = [(''state'', [])],
      RawQuery = ''code=code'',
      Query = query_of [(''code'', ''code'')]\<rparr>"

text \<open>
  A token whose type and access token are the same word, and a JSON encoder that
  lays \<^verbatim>\<open>out\<close> out as \<^verbatim>\<open>encoding/json\<close> does when no string needs escaping and the
  expiry is the zero time.
\<close>

definition bearer_token :: oauth2_token where
  "bearer_token = sample_token\<lparr>AccessToken := ''Bearer'', RefreshToken := []\<rparr>"

definition plain_token_json :: "oauth2_token \<Rightarrow> string" where
  "plain_token_json t =
     ''{\<newline>        \"access_token\": \"'' @ AccessToken t @ ''\"'' @
     (if TokenType t = [] then []
      else '',\<newline>        \"token_type\": \"'' @ TokenType t @ ''\"'') @
     (if RefreshToken t = [] then []
      else '',\<newline>        \"refresh_token\": \"'' @ RefreshToken t @ ''\"'') @
     '',\<newline>        \"expiry\": \"0001-01-01T00:00:00Z\"\<newline>    }''"

definition plain_MarshalIndent :: "dump_out \<Rightarrow> go_error + string" where
  "plain_MarshalIndent out =
     Inr (''{\<newline>    \"OAuth2Token\": '' @
          (case OAuth2Token out of None \<Rightarrow> ''null'' | Some t \<Rightarrow> plain_token_json t) @
          '',\<newline>    \"IDTokenClaims\": '' @
          (case IDTokenClaims out of None \<Rightarrow> ''null'' | Some c \<Rightarrow> c) @
          ''\<newline>}'')"

definition plain_json :: json_env where
  "plain_json = \<lparr>Unmarshal = (\<lambda>c. Inr (Some c)), MarshalIndent = plain_MarshalIndent\<rparr>"

section \<open>Properties\<close>

subsection \<open>Auxiliary facts\<close>

lemmas sample_defs = sample_env_def sample_client_def sample_token_def sample_id_token_def
  norandom_env_def late_env_def dev_client_def hook_client_def query_of_def

lemma Callback_login_verify:
  "CallVerify t \<in> set (Callback_login e client r tok rw) \<longleftrightarrow> t = rw"
  by (auto simp: Callback_login_def split: sum.splits option.splits)

lemma Callback_login_rejected:
  "Verify e rw = Inl err \<Longrightarrow>
   Callback_login e client r tok rw =
     [CallVerify rw, HttpError ''id token verification failed'' StatusInternalServerError]"
  by (simp add: Callback_login_def)

lemma Callback_login_hook:
  "Verify e rw = Inr idToken \<Longrightarrow> OnLogin client = Some hook \<Longrightarrow>
   Callback_login e client r tok rw =
     [CallVerify rw, CallOnLogin tok idToken,
      (case hook r tok idToken of
         None \<Rightarrow> HttpRedirect (frontendUrl client) StatusFound
       | Some ErrMissingCSCUserName \<Rightarrow>
           HttpRedirect (frontendUrl client @ ''?missingcsc=1'') StatusFound
       | Some ErrMissingOrganization \<Rightarrow>
           HttpRedirect (frontendUrl client @ ''?missingorg=1'') StatusFound
       | Some (OtherError msg) \<Rightarrow> HttpError ''Login failed'' StatusInternalServerError)]"
  by (simp add: Callback_login_def split: option.splits go_error.splits)


lemma censor_both:
  "(if RefreshToken (if AccessToken t \<noteq> [] then t\<lparr>AccessToken := ''***''\<rparr> else t) \<noteq> []
    then (if AccessToken t \<noteq> [] then t\<lparr>AccessToken := ''***''\<rparr> else t)\<lparr>RefreshToken := ''***''\<rparr>
    else (if AccessToken t \<noteq> [] then t\<lparr>AccessToken := ''***''\<rparr> else t)) =
   t\<lparr>AccessToken := (if AccessToken t \<noteq> [] then ''***'' else []),
     RefreshToken := (if RefreshToken t \<noteq> [] then ''***'' else [])\<rparr>"
  by (cases t) simp

lemma DumpToken_Some:
  "DumpToken j client (Some t) idToken =
     (let t2 = t\<lparr>AccessToken := (if AccessToken t \<noteq> [] then ''***'' else []),
                 RefreshToken := (if RefreshToken t \<noteq> [] then ''***'' else [])\<rparr>
      in case idToken of
           None \<Rightarrow> (Some t2, [], Panics)
         | Some i \<Rightarrow>
             (case idToken_Claims j i of
                Inl err \<Rightarrow>
                  (Some t2, [HttpError (error_Error err) StatusInternalServerError], Returns)
              | Inr c \<Rightarrow>
                  (case MarshalIndent j \<lparr>OAuth2Token = Some t2, IDTokenClaims = c\<rparr> of
                     Inl err \<Rightarrow>
                       (Some t2,
                        [HttpError ''Internal Server Error'' StatusInternalServerError],
                        Returns)
                   | Inr data \<Rightarrow>
                       (Some t2,
                        [HeaderSet ''Content-Type'' ''application/json'', HttpWrite data],
                        Returns))))"
  by (simp only: DumpToken_def Let_def option.case censor_both)

lemma censor_same:
  assumes "a = [] \<longleftrightarrow> AccessToken t = []" and "b = [] \<longleftrightarrow> RefreshToken t = []"
  shows "t\<lparr>AccessToken := a, RefreshToken := b\<rparr>
           \<lparr>AccessToken := (if a \<noteq> [] then ''***'' else []),
            RefreshToken := (if b \<noteq> [] then ''***'' else [])\<rparr> =
         t\<lparr>AccessToken := (if AccessToken t \<noteq> [] then ''***'' else []),
           RefreshToken := (if RefreshToken t \<noteq> [] then ''***'' else [])\<rparr>"
proof (cases "AccessToken t = []")
  case True
  with assms(1) have "a = []" by blast
  with assms(2) True show ?thesis by (cases "RefreshToken t = []") simp_all
next
  case False
  with assms(1) have "a \<noteq> []" by blast
  with assms(2) False show ?thesis by (cases "RefreshToken t = []") simp_all
qed

subsection \<open>The state check comes first\<close>

text \<open>
  C1. \<^verbatim>\<open>Callback\<close> calls the token endpoint (and the verifier) only on requests whose
  state cookie is present and equal, as a byte string, to the \<^verbatim>\<open>state\<close> query
  parameter. When the cookie is present and the two values differ, the handler answers
  400 "state did not match" and makes no exchange and no verification call.
\<close>

theorem Callback_state_check_first:
  "(CallExchange code \<in> set (Callback e client r) \<or> CallVerify tok \<in> set (Callback e client r)
      \<longrightarrow> (\<exists>v. request_Cookie r ''state'' = Some v \<and> values_Get (Query r) ''state'' = v))
   \<and> (request_Cookie r ''state'' = Some v \<and> values_Get (Query r) ''state'' \<noteq> v
      \<longrightarrow> Callback e client r = [HttpError ''state did not match'' StatusBadRequest]
          \<and> (\<forall>c. CallExchange c \<notin> set (Callback e client r))
          \<and> (\<forall>t. CallVerify t \<notin> set (Callback e client r)))"
  by (auto simp: Callback_def split: option.splits if_splits)

text \<open>
  An instance of each half: the request \<open>code_request\<close>, whose exchange happens after
  a matching state, and \<open>mismatch_request\<close> with a forged state.
\<close>

theorem Callback_state_check_first_witness:
  "CallExchange ''code'' \<in> set (Callback sample_env sample_client code_request)
   \<and> request_Cookie code_request ''state'' = Some ''MDEyMzQ1Njc4OWFiY2RlZg''
   \<and> values_Get (Query code_request) ''state'' = ''MDEyMzQ1Njc4OWFiY2RlZg''
   \<and> request_Cookie mismatch_request ''state'' = Some ''MDEyMzQ1Njc4OWFiY2RlZg''
   \<and> values_Get (Query mismatch_request) ''state'' = ''forged''
   \<and> Callback sample_env sample_client mismatch_request =
        [HttpError ''state did not match'' StatusBadRequest]"
  using Callback_state_check_first [of "''code''" sample_env sample_client code_request
      "''jwt''" "''MDEyMzQ1Njc4OWFiY2RlZg''"]
    Callback_state_check_first [of "''code''" sample_env sample_client mismatch_request
      "''jwt''" "''MDEyMzQ1Njc4OWFiY2RlZg''"]
  by (simp add: Callback_def Callback_login_def request_Cookie_def values_Get_def
      code_request_def mismatch_request_def token_Extra_def sample_defs)

subsection \<open>Developer tokens are verified\<close>

text \<open>
  With developer login allowed, a request that carries an unverifiable token but no
  state cookie ends in 400 "login session expired", not in the verification failure.
\<close>

theorem Callback_dev_token_counterexample:
  "allowDevLogin dev_client
   \<and> values_Get (Query nocookie_request) ''token'' = ''forged''
   \<and> Verify sample_env ''forged'' = Inl (OtherError ''failed to verify signature'')
   \<and> Callback sample_env dev_client nocookie_request =
       [HttpError ''login session expired'' StatusBadRequest]"
  by (simp add: Callback_def request_Cookie_def values_Get_def nocookie_request_def sample_defs)

text \<open>
  C2. With \<^verbatim>\<open>allowDevLogin\<close> set and a non-empty \<^verbatim>\<open>token\<close> parameter that the verifier
  rejects: once the state check has passed, \<^verbatim>\<open>Callback\<close> verifies that token and
  answers 500 "id token verification failed"; and on every such request, whether or not
  the state check passes, the hook is never called, no redirect is issued and the token
  endpoint is never asked.
\<close>

theorem Callback_dev_token_unverifiable:
  assumes "allowDevLogin client"
    and "values_Get (Query r) ''token'' = rawIDToken"
    and "rawIDToken \<noteq> []"
    and "Verify e rawIDToken = Inl err"
  shows "(request_Cookie r ''state'' = Some (values_Get (Query r) ''state'') \<longrightarrow>
           Callback e client r =
             [CallVerify rawIDToken,
              HttpError ''id token verification failed'' StatusInternalServerError])
         \<and> (\<forall>t i. CallOnLogin t i \<notin> set (Callback e client r))
         \<and> (\<forall>u c. HttpRedirect u c \<notin> set (Callback e client r))
         \<and> (\<forall>c. CallExchange c \<notin> set (Callback e client r))"
  using assms
  by (auto simp: Callback_def Callback_login_rejected split: option.splits)

text \<open>
  An instance: \<open>token_request\<close> carries a matching state and the token \<open>forged\<close>.
\<close>

theorem Callback_dev_token_unverifiable_witness:
  "allowDevLogin dev_client
   \<and> values_Get (Query token_request) ''token'' = ''forged''
   \<and> Verify sample_env ''forged'' = Inl (OtherError ''failed to verify signature'')
   \<and> request_Cookie token_request ''state'' = Some (values_Get (Query token_request) ''state'')
   \<and> Callback sample_env dev_client token_request =
        [CallVerify ''forged'',
         HttpError ''id token verification failed'' StatusInternalServerError]"
proof -
  have a: "allowDevLogin dev_client"
    by (simp add: sample_defs)
  have b: "values_Get (Query token_request) ''token'' = ''forged''"
    by (simp add: values_Get_def token_request_def query_of_def)
  have c: "Verify sample_env ''forged'' = Inl (OtherError ''failed to verify signature'')"
    by (simp add: sample_defs)
  have d: "request_Cookie token_request ''state'' = Some (values_Get (Query token_request) ''state'')"
    by (simp add: request_Cookie_def values_Get_def token_request_def query_of_def)
  from Callback_dev_token_unverifiable [OF a b _ c] d a b c show ?thesis
    by simp
qed

subsection \<open>The age of the state cookie\<close>




subsection \<open>The completion hook\<close>

text \<open>
  C4. When \<^verbatim>\<open>Callback\<close> has verified the raw ID token and a hook is installed, the
  hook is called next and its result decides the single response that follows: the
  missing-username error gives a 302 redirect to \<^verbatim>\<open>frontendUrl\<close> followed by
  \<open>?missingcsc=1\<close>, the missing-organization error a 302 redirect to \<^verbatim>\<open>frontendUrl\<close>
  followed by \<open>?missingorg=1\<close>, any other error 500 "Login failed" with no redirect,
  and a nil error a 302 redirect to \<^verbatim>\<open>frontendUrl\<close> itself. Before the verification the
  handler has called nothing, or the token endpoint only.
\<close>

theorem Callback_hook_dispatch:
  assumes "CallVerify rawIDToken \<in> set (Callback e client r)"
    and "Verify e rawIDToken = Inr idToken"
    and "OnLogin client = Some hook"
  shows "\<exists>pre tok.
           (pre = [] \<or> pre = [CallExchange (values_Get (Query r) ''code'')])
           \<and> Callback e client r =
               pre @
               [CallVerify rawIDToken,
                CallOnLogin tok idToken,
                (case hook r tok idToken of
                   None \<Rightarrow> HttpRedirect (frontendUrl client) StatusFound
                 | Some ErrMissingCSCUserName \<Rightarrow>
                     HttpRedirect (frontendUrl client @ ''?missingcsc=1'') StatusFound
                 | Some ErrMissingOrganization \<Rightarrow>
                     HttpRedirect (frontendUrl client @ ''?missingorg=1'') StatusFound
                 | Some (OtherError msg) \<Rightarrow>
                     HttpError ''Login failed'' StatusInternalServerError)]
           \<and> (\<forall>msg. hook r tok idToken = Some (OtherError msg) \<longrightarrow>
                 (\<forall>url code. HttpRedirect url code \<notin> set (Callback e client r)))"
proof -
  have hook: "Callback_login e client r tok rawIDToken =
     [CallVerify rawIDToken, CallOnLogin tok idToken,
      (case hook r tok idToken of
         None \<Rightarrow> HttpRedirect (frontendUrl client) StatusFound
       | Some ErrMissingCSCUserName \<Rightarrow>
           HttpRedirect (frontendUrl client @ ''?missingcsc=1'') StatusFound
       | Some ErrMissingOrganization \<Rightarrow>
           HttpRedirect (frontendUrl client @ ''?missingorg=1'') StatusFound
       | Some (OtherError msg) \<Rightarrow> HttpError ''Login failed'' StatusInternalServerError)]" for tok
    using assms(2,3) by (rule Callback_login_hook)
  from assms(1) consider
      (dev) "Callback e client r = Callback_login e client r None rawIDToken"
    | (code) tok where "Callback e client r =
          CallExchange (values_Get (Query r) ''code'') #
          Callback_login e client r (Some tok) rawIDToken"
    by (auto simp: Callback_def Let_def Callback_login_verify
        split: option.splits if_splits sum.splits go_value.splits)
  then show ?thesis
  proof cases
    case dev
    have "Callback e client r = [] @ Callback_login e client r None rawIDToken"
      using dev by simp
    then show ?thesis
      unfolding hook [of None] by (intro exI [of _ "[]"] exI [of _ None]) auto
  next
    case code
    have "Callback e client r =
        [CallExchange (values_Get (Query r) ''code'')] @
        Callback_login e client r (Some tok) rawIDToken"
      using code by simp
    then show ?thesis
      unfolding hook [of "Some tok"]
      by (intro exI [of _ "[CallExchange (values_Get (Query r) ''code'')]"] exI [of _ "Some tok"])
        auto
  qed
qed

text \<open>
  An instance for each answer of the hook, on the request \<open>code_request\<close>.
\<close>

theorem Callback_hook_dispatch_witness:
  "Verify sample_env ''jwt'' = Inr sample_id_token
   \<and> CallVerify ''jwt'' \<in> set (Callback sample_env (hook_client None) code_request)
   \<and> OnLogin (hook_client None) = Some (\<lambda>r t i. None)
   \<and> (\<exists>pre tok. Callback sample_env (hook_client None) code_request =
         pre @ [CallVerify ''jwt'', CallOnLogin tok sample_id_token,
                HttpRedirect ''https://qvain/login'' StatusFound])
   \<and> CallVerify ''jwt'' \<in> set (Callback sample_env (hook_client (Some ErrMissingCSCUserName)) code_request)
   \<and> OnLogin (hook_client (Some ErrMissingCSCUserName)) = Some (\<lambda>r t i. Some ErrMissingCSCUserName)
   \<and> (\<exists>pre tok. Callback sample_env (hook_client (Some ErrMissingCSCUserName)) code_request =
         pre @ [CallVerify ''jwt'', CallOnLogin tok sample_id_token,
                HttpRedirect ''https://qvain/login?missingcsc=1'' StatusFound])
   \<and> CallVerify ''jwt'' \<in> set (Callback sample_env (hook_client (Some ErrMissingOrganization)) code_request)
   \<and> OnLogin (hook_client (Some ErrMissingOrganization)) = Some (\<lambda>r t i. Some ErrMissingOrganization)
   \<and> (\<exists>pre tok. Callback sample_env (hook_client (Some ErrMissingOrganization)) code_request =
         pre @ [CallVerify ''jwt'', CallOnLogin tok sample_id_token,
                HttpRedirect ''https://qvain/login?missingorg=1'' StatusFound])
   \<and> CallVerify ''jwt'' \<in> set (Callback sample_env (hook_client (Some (OtherError ''no database''))) code_request)
   \<and> OnLogin (hook_client (Some (OtherError ''no database''))) = Some (\<lambda>r t i. Some (OtherError ''no database''))
   \<and> (\<exists>pre tok. Callback sample_env (hook_client (Some (OtherError ''no database''))) code_request =
         pre @ [CallVerify ''jwt'', CallOnLogin tok sample_id_token,
                HttpError ''Login failed'' StatusInternalServerError])"
proof -
  have a: "CallVerify ''jwt'' \<in> set (Callback sample_env (hook_client res) code_request)" for res
    by (simp add: Callback_def Callback_login_def request_Cookie_def values_Get_def
        token_Extra_def code_request_def sample_defs)
  have b: "Verify sample_env ''jwt'' = Inr sample_id_token"
    by (simp add: sample_env_def)
  have c: "OnLogin (hook_client res) = Some (\<lambda>r t i. res)" for res
    by (simp add: hook_client_def)
  have d: "frontendUrl (hook_client res) = ''https://qvain/login''" for res
    by (simp add: hook_client_def sample_client_def)
  from Callback_hook_dispatch [OF a b c, of None]
  have 1: "\<exists>pre tok. Callback sample_env (hook_client None) code_request =
      pre @ [CallVerify ''jwt'', CallOnLogin tok sample_id_token,
             HttpRedirect ''https://qvain/login'' StatusFound]"
    by (auto simp: d)
  from Callback_hook_dispatch [OF a b c, of "Some ErrMissingCSCUserName"]
  have 2: "\<exists>pre tok. Callback sample_env (hook_client (Some ErrMissingCSCUserName)) code_request =
      pre @ [CallVerify ''jwt'', CallOnLogin tok sample_id_token,
             HttpRedirect ''https://qvain/login?missingcsc=1'' StatusFound]"
    by (auto simp: d)
  from Callback_hook_dispatch [OF a b c, of "Some ErrMissingOrganization"]
  have 3: "\<exists>pre tok. Callback sample_env (hook_client (Some ErrMissingOrganization)) code_request =
      pre @ [CallVerify ''jwt'', CallOnLogin tok sample_id_token,
             HttpRedirect ''https://qvain/login?missingorg=1'' StatusFound]"
    by (auto simp: d)
  from Callback_hook_dispatch [OF a b c, of "Some (OtherError ''no database'')"]
  have 4: "\<exists>pre tok. Callback sample_env (hook_client (Some (OtherError ''no database''))) code_request =
      pre @ [CallVerify ''jwt'', CallOnLogin tok sample_id_token,
             HttpError ''Login failed'' StatusInternalServerError]"
    by (auto simp: d)
  from a b c 1 2 3 4 show ?thesis
    by blast
qed

subsection \<open>No state cookie\<close>

text \<open>
  C5. A callback without a state cookie is answered by 400 "login session expired",
  whatever its query parameters are.
\<close>

theorem Callback_no_cookie:
  "request_Cookie r ''state'' = None \<Longrightarrow>
   Callback e client r = [HttpError ''login session expired'' StatusBadRequest]"
  by (simp add: Callback_def)

text \<open>
  An instance: \<open>nocookie_request\<close> carries a token and a state, and no cookie.
\<close>

theorem Callback_no_cookie_witness:
  "request_Cookie nocookie_request ''state'' = None
   \<and> Callback sample_env dev_client nocookie_request =
        [HttpError ''login session expired'' StatusBadRequest]"
proof -
  have a: "request_Cookie nocookie_request ''state'' = None"
    by (simp add: request_Cookie_def nocookie_request_def)
  from Callback_no_cookie [OF a] a show ?thesis
    by simp
qed

subsection \<open>Developer login switched off\<close>

text \<open>
  With developer login off, a begin request that carries a token is answered by 500, not
  by 403, when the random source fails: the state is generated before the token
  parameter is looked at.
\<close>

theorem dev_login_disabled_counterexample:
  "\<not> allowDevLogin sample_client
   \<and> values_Get (Query begin_token_request) ''token'' = ''jwt''
   \<and> Auth norandom_env sample_client begin_token_request =
        [HttpError ''can't create state parameter'' StatusInternalServerError]"
  by (simp add: Auth_def values_Get_def begin_token_request_def sample_defs)

text \<open>
  C6. With \<^verbatim>\<open>allowDevLogin\<close> off and a non-empty \<^verbatim>\<open>token\<close> parameter: \<^verbatim>\<open>Auth\<close>, once
  the random state has been generated, sets the state cookie and answers 403
  "access denied"; \<^verbatim>\<open>Callback\<close>, once its state check has passed, answers 403
  "access denied"; and neither handler ever calls the verifier on such a request.
\<close>

theorem dev_login_disabled:
  assumes "\<not> allowDevLogin client"
    and "values_Get (Query r) ''token'' \<noteq> []"
  shows "(Random16 e = Inr key \<longrightarrow>
            (\<exists>c. Auth e client r = [HttpSetCookie c, HttpError ''access denied'' StatusForbidden]))
         \<and> (request_Cookie r ''state'' = Some (values_Get (Query r) ''state'') \<longrightarrow>
            Callback e client r = [HttpError ''access denied'' StatusForbidden])
         \<and> (\<forall>t. CallVerify t \<notin> set (Auth e client r))
         \<and> (\<forall>t. CallVerify t \<notin> set (Callback e client r))"
  using assms
  by (auto simp: Auth_def Callback_def Let_def split: sum.splits option.splits)

text \<open>
  An instance on each endpoint: \<open>begin_token_request\<close> and \<open>token_request\<close>.
\<close>

theorem dev_login_disabled_witness:
  "\<not> allowDevLogin sample_client
   \<and> values_Get (Query begin_token_request) ''token'' \<noteq> []
   \<and> values_Get (Query token_request) ''token'' \<noteq> []
   \<and> Random16 sample_env = Inr ''0123456789abcdef''
   \<and> request_Cookie token_request ''state'' = Some (values_Get (Query token_request) ''state'')
   \<and> (\<exists>c. Auth sample_env sample_client begin_token_request =
          [HttpSetCookie c, HttpError ''access denied'' StatusForbidden])
   \<and> Callback sample_env sample_client token_request =
        [HttpError ''access denied'' StatusForbidden]"
proof -
  have a: "\<not> allowDevLogin sample_client"
    by (simp add: sample_client_def)
  have b: "values_Get (Query begin_token_request) ''token'' \<noteq> []"
    by (simp add: values_Get_def begin_token_request_def query_of_def)
  have c: "values_Get (Query token_request) ''token'' \<noteq> []"
    by (simp add: values_Get_def token_request_def query_of_def)
  have d: "Random16 sample_env = Inr ''0123456789abcdef''"
    by (simp add: sample_env_def)
  have f: "request_Cookie token_request ''state'' = Some (values_Get (Query token_request) ''state'')"
    by (simp add: request_Cookie_def values_Get_def token_request_def query_of_def)
  from dev_login_disabled [OF a b, of sample_env "''0123456789abcdef''"]
    dev_login_disabled [OF a c, of sample_env "''0123456789abcdef''"] a b c d f
  show ?thesis
    by simp
qed

subsection \<open>The state cookie\<close>

text \<open>
  C7. When the random key is generated, \<^verbatim>\<open>Auth\<close> sets exactly one cookie and then
  writes exactly one response, a 302 redirect or the 403 refusal of a developer token.
  The cookie is named \<open>state\<close>, holds the key in base 64, has the path \<open>/api/auth\<close>, is
  Secure and HttpOnly, has MaxAge 600 and expires 600 seconds after the current time.
  When the random source fails, \<^verbatim>\<open>Auth\<close> answers 500 and sets no cookie.
\<close>

theorem Auth_state_cookie:
  "(Random16 e = Inr key \<longrightarrow>
      (\<exists>resp. Auth e client r =
          [HttpSetCookie
             \<lparr>Name = ''state'', Value = Base64 e key, Path = ''/api/auth'',
              Expires = Now e + 600 * time_Second, MaxAge = 600,
              Secure = True, HttpOnly = True\<rparr>,
           resp]
        \<and> ((\<exists>url. resp = HttpRedirect url StatusFound)
             \<or> resp = HttpError ''access denied'' StatusForbidden)))
   \<and> (Random16 e = Inl err \<longrightarrow>
        Auth e client r = [HttpError ''can't create state parameter'' StatusInternalServerError])"
  by (simp add: Auth_def Let_def)

text \<open>
  An instance of each case: the sample world and the world without randomness.
\<close>

theorem Auth_state_cookie_witness:
  "Random16 sample_env = Inr ''0123456789abcdef''
   \<and> Auth sample_env sample_client begin_request =
        [HttpSetCookie
           \<lparr>Name = ''state'', Value = ''MDEyMzQ1Njc4OWFiY2RlZg'', Path = ''/api/auth'',
            Expires = 600 * time_Second, MaxAge = 600, Secure = True, HttpOnly = True\<rparr>,
         HttpRedirect ''https://idp/authorize?state=MDEyMzQ1Njc4OWFiY2RlZg&nonce='' StatusFound]
   \<and> Random16 norandom_env = Inl (OtherError ''unexpected EOF'')
   \<and> Auth norandom_env sample_client begin_request =
        [HttpError ''can't create state parameter'' StatusInternalServerError]"
proof -
  have a: "Random16 sample_env = Inr ''0123456789abcdef''"
    by (simp add: sample_env_def)
  have b: "Random16 norandom_env = Inl (OtherError ''unexpected EOF'')"
    by (simp add: norandom_env_def)
  have c: "Auth sample_env sample_client begin_request =
        [HttpSetCookie
           \<lparr>Name = ''state'', Value = ''MDEyMzQ1Njc4OWFiY2RlZg'', Path = ''/api/auth'',
            Expires = 600 * time_Second, MaxAge = 600, Secure = True, HttpOnly = True\<rparr>,
         HttpRedirect ''https://idp/authorize?state=MDEyMzQ1Njc4OWFiY2RlZg&nonce='' StatusFound]"
    by (simp add: Auth_def values_Get_def begin_request_def sample_defs)
  from Auth_state_cookie [of sample_env "''0123456789abcdef''" sample_client begin_request
      "OtherError ''unexpected EOF''"]
    Auth_state_cookie [of norandom_env "''0123456789abcdef''" sample_client begin_request
      "OtherError ''unexpected EOF''"] a b c
  show ?thesis
    by simp
qed

subsection \<open>The dump redacts the secrets\<close>

text \<open>
  The access token of \<open>bearer_token\<close> is the word \<open>Bearer\<close>, which is its token type
  too. The dump replaces the access token by the marker and still writes the word, as
  the token type.
\<close>

theorem DumpToken_counterexample:
  "AccessToken bearer_token = ''Bearer''
   \<and> snd (DumpToken plain_json sample_client (Some bearer_token) (Some sample_id_token)) =
       ([HeaderSet ''Content-Type'' ''application/json'',
         HttpWrite
           (''{\<newline>    \"OAuth2Token\": {\<newline>        \"access_token\": \"***\",\<newline>        \"token_type\": \"''
            @ AccessToken bearer_token @
            ''\",\<newline>        \"expiry\": \"0001-01-01T00:00:00Z\"\<newline>    },\<newline>    \"IDTokenClaims\": {}\<newline>}'')],
        Returns)"
  by (simp add: DumpToken_def idToken_Claims_def plain_json_def plain_MarshalIndent_def
      plain_token_json_def bearer_token_def sample_defs)

text \<open>
  C8. What \<^verbatim>\<open>DumpToken\<close> writes does not depend on the values of a non-empty access
  token and a non-empty refresh token: two tokens that differ in these values only
  give the same calls. The document written is the serialization of a token whose
  access token and refresh token are the marker \<open>***\<close> where they were non-empty.
\<close>

theorem DumpToken_redacts:
  "((a = [] \<longleftrightarrow> AccessToken t = []) \<and> (b = [] \<longleftrightarrow> RefreshToken t = []) \<longrightarrow>
      DumpToken j client (Some (t\<lparr>AccessToken := a, RefreshToken := b\<rparr>)) idToken =
      DumpToken j client (Some t) idToken)
   \<and> (HttpWrite data \<in> set (fst (snd (DumpToken j client (Some t) idToken))) \<longrightarrow>
        (\<exists>c. MarshalIndent j
               \<lparr>OAuth2Token =
                  Some (t\<lparr>AccessToken := (if AccessToken t \<noteq> [] then ''***'' else []),
                          RefreshToken := (if RefreshToken t \<noteq> [] then ''***'' else [])\<rparr>),
                IDTokenClaims = c\<rparr> = Inr data))"
proof (intro conjI impI)
  assume "(a = [] \<longleftrightarrow> AccessToken t = []) \<and> (b = [] \<longleftrightarrow> RefreshToken t = [])"
  then have "t\<lparr>AccessToken := a, RefreshToken := b\<rparr>
           \<lparr>AccessToken := (if a \<noteq> [] then ''***'' else []),
            RefreshToken := (if b \<noteq> [] then ''***'' else [])\<rparr> =
         t\<lparr>AccessToken := (if AccessToken t \<noteq> [] then ''***'' else []),
           RefreshToken := (if RefreshToken t \<noteq> [] then ''***'' else [])\<rparr>"
    using censor_same by blast
  then show "DumpToken j client (Some (t\<lparr>AccessToken := a, RefreshToken := b\<rparr>)) idToken =
      DumpToken j client (Some t) idToken"
    unfolding DumpToken_Some by simp
next
  assume "HttpWrite data \<in> set (fst (snd (DumpToken j client (Some t) idToken)))"
  then show "\<exists>c. MarshalIndent j
               \<lparr>OAuth2Token =
                  Some (t\<lparr>AccessToken := (if AccessToken t \<noteq> [] then ''***'' else []),
                          RefreshToken := (if RefreshToken t \<noteq> [] then ''***'' else [])\<rparr>),
                IDTokenClaims = c\<rparr> = Inr data"
    unfolding DumpToken_Some Let_def
    by (cases idToken) (auto split: sum.splits)
qed

text \<open>
  An instance: \<open>sample_token\<close> and the same token with two other secrets.
\<close>

theorem DumpToken_redacts_witness:
  "DumpToken plain_json sample_client
     (Some (sample_token\<lparr>AccessToken := ''other'', RefreshToken := ''more''\<rparr>))
     (Some sample_id_token) =
   DumpToken plain_json sample_client (Some sample_token) (Some sample_id_token)
   \<and> HttpWrite
        ''{\<newline>    \"OAuth2Token\": {\<newline>        \"access_token\": \"***\",\<newline>        \"token_type\": \"Bearer\",\<newline>        \"refresh_token\": \"***\",\<newline>        \"expiry\": \"0001-01-01T00:00:00Z\"\<newline>    },\<newline>    \"IDTokenClaims\": {}\<newline>}''
      \<in> set (fst (snd (DumpToken plain_json sample_client (Some sample_token)
                 (Some sample_id_token))))"
proof -
  have a: "(''other'' = [] \<longleftrightarrow> AccessToken sample_token = [])
      \<and> (''more'' = [] \<longleftrightarrow> RefreshToken sample_token = [])"
    by (simp add: sample_token_def)
  have b: "HttpWrite
        ''{\<newline>    \"OAuth2Token\": {\<newline>        \"access_token\": \"***\",\<newline>        \"token_type\": \"Bearer\",\<newline>        \"refresh_token\": \"***\",\<newline>        \"expiry\": \"0001-01-01T00:00:00Z\"\<newline>    },\<newline>    \"IDTokenClaims\": {}\<newline>}''
      \<in> set (fst (snd (DumpToken plain_json sample_client (Some sample_token)
                 (Some sample_id_token))))"
    by (simp add: DumpToken_def idToken_Claims_def plain_json_def plain_MarshalIndent_def
        plain_token_json_def sample_defs)
  from DumpToken_redacts [where t = sample_token and a = "''other''" and b = "''more''"
      and j = plain_json and client = sample_client and idToken = "Some sample_id_token",
      THEN conjunct1] a b
  show ?thesis
    by simp
qed

subsection \<open>An empty state\<close>

text \<open>
  C9. The state check is plain equality: with a state cookie whose value is empty and
  no \<^verbatim>\<open>state\<close> parameter, \<^verbatim>\<open>Callback\<close> answers neither of its two 400 responses
  and goes on to acquire the token: a developer token is verified or, with developer
  login off, refused with 403; without one, the code is exchanged.
\<close>

theorem Callback_empty_state:
  assumes "request_Cookie r ''state'' = Some []"
    and "Query r ''state'' = []"
  shows "Callback e client r \<noteq> [HttpError ''login session expired'' StatusBadRequest]
         \<and> Callback e client r \<noteq> [HttpError ''state did not match'' StatusBadRequest]
         \<and> (if values_Get (Query r) ''token'' \<noteq> [] then
               if allowDevLogin client then
                 hd (Callback e client r) = CallVerify (values_Get (Query r) ''token'')
               else Callback e client r = [HttpError ''access denied'' StatusForbidden]
             else hd (Callback e client r) = CallExchange (values_Get (Query r) ''code''))"
  using assms
  by (simp add: Callback_def Callback_login_def values_Get_def Let_def)

text \<open>
  An instance: \<open>emptystate_request\<close>.
\<close>

theorem Callback_empty_state_witness:
  "request_Cookie emptystate_request ''state'' = Some []
   \<and> Query emptystate_request ''state'' = []
   \<and> Callback sample_env sample_client emptystate_request =
        [CallExchange ''code'', CallVerify ''jwt'',
         HttpRedirect ''https://qvain/login'' StatusFound]
   \<and> hd (Callback sample_env sample_client emptystate_request) = CallExchange ''code''"
proof -
  have a: "request_Cookie emptystate_request ''state'' = Some []"
    by (simp add: request_Cookie_def emptystate_request_def)
  have b: "Query emptystate_request ''state'' = []"
    by (simp add: emptystate_request_def query_of_def)
  have c: "Callback sample_env sample_client emptystate_request =
        [CallExchange ''code'', CallVerify ''jwt'',
         HttpRedirect ''https://qvain/login'' StatusFound]"
    by (simp add: Callback_def Callback_login_def request_Cookie_def values_Get_def
        token_Extra_def emptystate_request_def sample_defs)
  have d: "values_Get (Query emptystate_request) ''token'' = []"
    by (simp add: values_Get_def emptystate_request_def query_of_def)
  have f: "values_Get (Query emptystate_request) ''code'' = ''code''"
    by (simp add: values_Get_def emptystate_request_def query_of_def)
  from Callback_empty_state [OF a b, of sample_env sample_client] a b c d f show ?thesis
    by simp
qed

subsection \<open>The dump writes through its token pointer\<close>

text \<open>
  C10. After a call of \<^verbatim>\<open>DumpToken\<close> on a token object, however the call ends, the
  object's access token is \<open>***\<close> if it was non-empty and unchanged if it was empty,
  likewise its refresh token, and its other fields are unchanged.
\<close>

theorem DumpToken_mutates_token:
  "fst (DumpToken j client (Some t) idToken) =
     Some (t\<lparr>AccessToken := (if AccessToken t \<noteq> [] then ''***'' else AccessToken t),
             RefreshToken := (if RefreshToken t \<noteq> [] then ''***'' else RefreshToken t)\<rparr>)"
  by (simp add: DumpToken_def Let_def split: option.splits sum.splits)

end
